theory Spec2Isabelle
  imports Complex_Main "HOL-Library.AList"
begin

section \<open>Python strings\<close>

text \<open>
  A Python \<open>str\<close> is modelled as a \<open>string\<close>: each \<open>char\<close> stands for the code point of
  the same number, so the model covers the strings whose code points are below 256.
  \<open>isspace\<close> is the whitespace test that \<open>str.strip()\<close> and the regular expression \<open>\s\<close>
  share in CPython: the code points 9 to 13, 28 to 32, 133 and 160 in that range.
\<close>

definition isspace :: "char \<Rightarrow> bool" where
  "isspace c = (let n = (of_char c :: nat) in
     (9 \<le> n \<and> n \<le> 13) \<or> (28 \<le> n \<and> n \<le> 32) \<or> n = 133 \<or> n = 160)"

text \<open>
  \<open>text.replace(old, new)\<close>: the occurrences of \<open>old\<close> are found from the left and do not
  overlap. With an empty \<open>old\<close>, Python puts \<open>new\<close> before every character and at the end.
\<close>

function replace_from :: "string \<Rightarrow> string \<Rightarrow> string \<Rightarrow> string" where
  "replace_from old new [] = []"
| "replace_from old new (c # cs) =
     (if old \<noteq> [] \<and> take (length old) (c # cs) = old
      then new @ replace_from old new (drop (length old) (c # cs))
      else c # replace_from old new cs)"
  by pat_completeness auto
termination
  by (relation "measure (\<lambda>(old, new, text). length text)") (auto simp: neq_Nil_conv)

definition py_replace :: "string \<Rightarrow> string \<Rightarrow> string \<Rightarrow> string" where
  "py_replace old new text =
     (if old = [] then new @ concat (map (\<lambda>c. c # new) text)
      else replace_from old new text)"

text \<open>
  \<open>re.sub(pattern, repl, text)\<close> for the two patterns of this module, both of the shape
  "a literal, then one or more characters of a class": \<open>\s+\<close> (no literal, the class of
  whitespace) and \<open>/s+\<close> (the literal \<open>/\<close>, the class of the letter s). The scan goes from
  the left; a match is greedy, is replaced by \<open>repl\<close>, and the scan goes on after it.
\<close>

function re_sub_lit_plus :: "string \<Rightarrow> (char \<Rightarrow> bool) \<Rightarrow> string \<Rightarrow> string \<Rightarrow> string" where
  "re_sub_lit_plus lit P repl [] = []"
| "re_sub_lit_plus lit P repl (c # cs) =
     (if take (length lit) (c # cs) = lit \<and> drop (length lit) (c # cs) \<noteq> []
         \<and> P (hd (drop (length lit) (c # cs)))
      then repl @ re_sub_lit_plus lit P repl (dropWhile P (drop (length lit) (c # cs)))
      else c # re_sub_lit_plus lit P repl cs)"
  by pat_completeness auto
termination
proof (relation "measure (\<lambda>(lit, P, repl, text). length text)")
  show "wf (measure (\<lambda>(lit, P, repl, text). length text))" by simp
next
  fix lit :: string and P :: "char \<Rightarrow> bool" and repl :: string and c :: char and cs :: string
  assume a: "take (length lit) (c # cs) = lit \<and> drop (length lit) (c # cs) \<noteq> []
         \<and> P (hd (drop (length lit) (c # cs)))"
  let ?r = "drop (length lit) (c # cs)"
  from a obtain x xs where r: "?r = x # xs" and px: "P x"
    by (cases ?r) auto
  have "length (dropWhile P ?r) \<le> length xs"
    using r px by (simp add: length_dropWhile_le)
  moreover have "length ?r \<le> length (c # cs)" by simp
  ultimately have "length (dropWhile P ?r) < length (c # cs)"
    using r by (metis length_Cons less_Suc_eq_le order_trans le_imp_less_Suc Suc_le_eq)
  then show "((lit, P, repl, dropWhile P ?r), (lit, P, repl, c # cs))
       \<in> measure (\<lambda>(lit, P, repl, text). length text)"
    by simp
next
  fix lit :: string and P :: "char \<Rightarrow> bool" and repl :: string and c :: char and cs :: string
  show "((lit, P, repl, cs), (lit, P, repl, c # cs))
       \<in> measure (\<lambda>(lit, P, repl, text). length text)"
    by simp
qed

definition re_sub_whitespace :: "string \<Rightarrow> string \<Rightarrow> string" where
  \<comment> \<open>\<open>re.sub(r"\s+", repl, text)\<close>\<close>
  "re_sub_whitespace repl text = re_sub_lit_plus [] isspace repl text"

definition re_sub_slash_s :: "string \<Rightarrow> string \<Rightarrow> string" where
  \<comment> \<open>\<open>re.sub("/s+", repl, text)\<close>: a slash followed by one or more letters s\<close>
  "re_sub_slash_s repl text = re_sub_lit_plus ''/'' (\<lambda>c. c = CHR ''s'') repl text"

definition py_strip :: "string \<Rightarrow> string" where
  "py_strip text = rev (dropWhile isspace (rev (dropWhile isspace text)))"

section \<open>Text formatter\<close>

definition is_empty_string :: "string \<Rightarrow> bool" where
  "is_empty_string text0 =
     (let text1 = py_replace ''.'' '''' text0;
          text2 = re_sub_whitespace '''' text1
      in if py_strip text2 \<noteq> [] then False else True)"

definition format_punct :: "string \<Rightarrow> string" where
  "format_punct text0 =
     (let text1 = py_replace ''...'' '''' text0;
          text2 = py_replace '' ?'' ''?'' text1;
          text3 = py_replace '' !'' ''!'' text2;
          text4 = py_replace '' .'' ''.'' text3;
          text5 = py_replace '' ,'' '','' text4;
          text6 = py_replace '' :'' '':'' text5;
          text7 = py_replace '' ;'' '';'' text6;
          text8 = re_sub_slash_s '' '' text7
      in py_strip text8)"

section \<open>Errors and numbers\<close>

text \<open>
  Every exception the modelled code can raise is a value: a function that can raise returns
  \<open>error + 'a\<close>, with \<open>Inl\<close> for the exception. The constructors carry the names of the
  Python exception classes and the message of the exception.
\<close>

datatype error =
    ValueError string
  | AttributeError string
  | FileNotFoundError string
  | NotADirectoryError string
  | IsADirectoryError string
  | FileExistsError string
  | ConnectionError string
  | Exception string

text \<open>\<open>str(n)\<close> for an integer, and the format specification \<open>{n:0w}\<close> (zeros after the sign).\<close>

definition digit_char :: "nat \<Rightarrow> char" where
  "digit_char d = char_of (48 + d)"

fun str_nat :: "nat \<Rightarrow> string" where
  "str_nat n = (if n < 10 then [digit_char n] else str_nat (n div 10) @ [digit_char (n mod 10)])"

declare str_nat.simps [simp del]

definition str_int :: "int \<Rightarrow> string" where
  "str_int i = (if i < 0 then ''-'' @ str_nat (nat (- i)) else str_nat (nat i))"

definition format_zero_padded :: "nat \<Rightarrow> int \<Rightarrow> string" where
  "format_zero_padded w i =
     (let sign = (if i < 0 then ''-'' else []);
          ds = str_nat (nat \<bar>i\<bar>)
      in sign @ replicate (w - length sign - length ds) (CHR ''0'') @ ds)"

text \<open>
  A timestamp is a finite floating-point number, modelled by the rational it denotes (NaN and
  the infinities are no timestamps and are outside the model). An arithmetic operation on
  floats computes the exact result and rounds it; the rounding is the parameter \<open>rnd\<close> of
  every function that computes on floats (round-to-nearest-even on binary64 for CPython), and
  nothing is assumed of it. \<open>fmod\<close>, \<open>floor\<close> and the conversions to \<open>int\<close> are exact.
  \<open>float_divmod\<close> and \<open>float_rem\<close> follow CPython's \<open>divmod\<close> and \<open>%\<close> on floats, for a
  divisor that is not zero (the divisors of this module are 3600, 60 and 1).
\<close>

definition py_int :: "rat \<Rightarrow> int" where
  \<comment> \<open>\<open>int(x)\<close>: towards zero\<close>
  "py_int x = (if 0 \<le> x then \<lfloor>x\<rfloor> else \<lceil>x\<rceil>)"

definition math_floor :: "rat \<Rightarrow> int" where
  "math_floor x = \<lfloor>x\<rfloor>"

definition fmod :: "rat \<Rightarrow> rat \<Rightarrow> rat" where
  "fmod vx wx = vx - wx * of_int (py_int (vx / wx))"

definition float_divmod :: "(rat \<Rightarrow> rat) \<Rightarrow> rat \<Rightarrow> rat \<Rightarrow> rat \<times> rat" where
  "float_divmod rnd vx wx =
     (let mod0 = fmod vx wx;
          div0 = rnd (rnd (vx - mod0) / wx);
          (mod1, div1) =
            (if mod0 \<noteq> 0
             then (if (wx < 0) \<noteq> (mod0 < 0) then (rnd (mod0 + wx), rnd (div0 - 1))
                   else (mod0, div0))
             else (0, div0));
          floordiv =
            (if div1 \<noteq> 0
             then (let f = of_int \<lfloor>div1\<rfloor>
                   in if rnd (div1 - f) > 1 / 2 then rnd (f + 1) else f)
             else 0)
      in (floordiv, mod1))"

definition float_rem :: "(rat \<Rightarrow> rat) \<Rightarrow> rat \<Rightarrow> rat \<Rightarrow> rat" where
  "float_rem rnd vx wx =
     (let mod0 = fmod vx wx
      in if mod0 \<noteq> 0 then (if (wx < 0) \<noteq> (mod0 < 0) then rnd (mod0 + wx) else mod0)
         else 0)"

section \<open>Timestamp converter\<close>

definition convert_ms_to_hms :: "(rat \<Rightarrow> rat) \<Rightarrow> rat \<Rightarrow> string" where
  "convert_ms_to_hms rnd timestamp =
     (let (hours, remainder) = float_divmod rnd (rnd (timestamp / 1000)) 3600;
          (minutes, seconds) = float_divmod rnd remainder 60;
          milliseconds = math_floor (rnd (float_rem rnd seconds 1 * 1000))
      in format_zero_padded 2 (py_int hours) @ '':'' @ format_zero_padded 2 (py_int minutes)
         @ '':'' @ format_zero_padded 2 (py_int seconds) @ ''.''
         @ format_zero_padded 3 milliseconds)"

definition convert_ms_to_s :: "(rat \<Rightarrow> rat) \<Rightarrow> rat \<Rightarrow> rat" where
  "convert_ms_to_s rnd timestamp = rnd (timestamp / 1000)"

datatype converted = Float rat | Str string

definition convert_timestamp :: "(rat \<Rightarrow> rat) \<Rightarrow> rat \<Rightarrow> string \<Rightarrow> error + converted" where
  "convert_timestamp rnd timestamp target =
     (if target = ''ms'' then Inr (Float timestamp)
      else if target = ''hms'' then Inr (Str (convert_ms_to_hms rnd timestamp))
      else if target = ''s'' then Inr (Float (convert_ms_to_s rnd timestamp))
      else Inl (ValueError (''Invalid conversion target: '' @ target
                  @ ''. Valid targets are: ms, hms, s.'')))"

definition get_segment_timestamp_anchor :: "(rat \<Rightarrow> rat) \<Rightarrow> rat \<Rightarrow> rat \<Rightarrow> string \<Rightarrow> rat" where
  "get_segment_timestamp_anchor rnd start end' option =
     (if option = ''end'' then end'
      else if option = ''mid'' then rnd (rnd (start + end') / 2)
      else start)"

section \<open>Request models\<close>

text \<open>
  The two request models with validators. A constructor argument is \<open>None\<close> when the caller
  leaves the field out, and the field then takes its default, which the validators do not
  see; a supplied value is a string, as the validators' annotations say. The validators run
  in the order of the fields, and the errors of all of them are reported together.
\<close>

definition validate_timestamps_values :: "string \<Rightarrow> error + string" where
  "validate_timestamps_values v =
     (if v \<notin> set [''hms'', ''ms'', ''s'']
      then Inl (ValueError ''timestamps must be one of 'hms', 'ms', 's'.'')
      else Inr v)"

definition validate_url_type :: "string \<Rightarrow> error + string" where
  "validate_url_type v =
     (if v \<notin> set [''audio_url'', ''youtube'']
      then Inl (ValueError ''Url must be one of 'audio_url', 'youtube'.'')
      else Inr v)"

definition validated :: "(string \<Rightarrow> error + string) \<Rightarrow> string \<Rightarrow> string option \<Rightarrow> error + string" where
  "validated validator dflt arg =
     (case arg of None \<Rightarrow> Inr dflt | Some v \<Rightarrow> validator v)"

definition default_to :: "'a \<Rightarrow> 'a option \<Rightarrow> 'a" where
  "default_to d arg = (case arg of None \<Rightarrow> d | Some v \<Rightarrow> v)"

definition errors_of :: "(error + 'a) list \<Rightarrow> error list" where
  "errors_of rs = concat (map (\<lambda>r. case r of Inl e \<Rightarrow> [e] | Inr v \<Rightarrow> []) rs)"

record DataRequest =
  alignment :: bool
  source_lang :: string
  timestamps :: string

definition new_DataRequest ::
  "bool option \<Rightarrow> string option \<Rightarrow> string option \<Rightarrow> error list + DataRequest" where
  "new_DataRequest alignment_arg source_lang_arg timestamps_arg =
     (case validated validate_timestamps_values ''s'' timestamps_arg of
        Inl e \<Rightarrow> Inl [e]
      | Inr ts \<Rightarrow> Inr \<lparr>alignment = default_to False alignment_arg,
                       source_lang = default_to ''en'' source_lang_arg,
                       timestamps = ts\<rparr>)"

record CortexPayload =
  url_type :: string
  url :: "string option"
  api_key :: "string option"
  cp_alignment :: bool
  cp_source_lang :: string
  cp_timestamps :: string
  job_name :: "string option"
  ping :: bool

definition new_CortexPayload ::
  "string option \<Rightarrow> string option \<Rightarrow> string option \<Rightarrow> bool option \<Rightarrow> string option
     \<Rightarrow> string option \<Rightarrow> string option \<Rightarrow> bool option \<Rightarrow> error list + CortexPayload" where
  "new_CortexPayload url_type_arg url_arg api_key_arg alignment_arg source_lang_arg
       timestamps_arg job_name_arg ping_arg =
     (let ut = validated validate_url_type ''audio_url'' url_type_arg;
          ts = validated validate_timestamps_values ''s'' timestamps_arg
      in case (ut, ts) of
           (Inr u, Inr t) \<Rightarrow>
             Inr \<lparr>url_type = u, url = url_arg, api_key = api_key_arg,
                  cp_alignment = default_to False alignment_arg,
                  cp_source_lang = default_to ''en'' source_lang_arg,
                  cp_timestamps = t, job_name = job_name_arg,
                  ping = default_to False ping_arg\<rparr>
         | _ \<Rightarrow> Inl (errors_of [ut, ts]))"

section \<open>Paths and the file system\<close>

text \<open>
  A \<open>pathlib\<close> path of the POSIX flavour: whether it starts at the root, and its parts.
  Parsing a string splits it at the slashes and drops the empty parts and the parts \<open>.\<close>
  (a leading double slash, which POSIX keeps apart, is read as one). The operator \<open>/\<close>
  appends the parts of its right operand, or returns the right operand when that starts at
  the root.
\<close>

datatype pypath = Path bool "string list"

fun split_slash :: "string \<Rightarrow> string list" where
  "split_slash [] = [[]]"
| "split_slash (c # cs) =
     (if c = CHR ''/'' then [] # split_slash cs
      else (case split_slash cs of [] \<Rightarrow> [[c]] | p # ps \<Rightarrow> (c # p) # ps))"

definition path_of_str :: "string \<Rightarrow> pypath" where
  "path_of_str s =
     Path (s \<noteq> [] \<and> hd s = CHR ''/'') (filter (\<lambda>p. p \<noteq> [] \<and> p \<noteq> ''.'') (split_slash s))"

fun join_slash :: "string list \<Rightarrow> string" where
  "join_slash [] = []"
| "join_slash [p] = p"
| "join_slash (p # q # ps) = p @ ''/'' @ join_slash (q # ps)"

fun str_of_path :: "pypath \<Rightarrow> string" where
  "str_of_path (Path rooted ps) =
     (if rooted then ''/'' @ join_slash ps else if ps = [] then ''.'' else join_slash ps)"

fun path_join :: "pypath \<Rightarrow> pypath \<Rightarrow> pypath" where
  "path_join (Path r ps) (Path r' qs) = (if r' then Path r' qs else Path r (ps @ qs))"

definition path_div :: "pypath \<Rightarrow> string \<Rightarrow> pypath" where
  "path_div p s = path_join p (path_of_str s)"

fun path_name :: "pypath \<Rightarrow> string" where
  "path_name (Path r ps) = (if ps = [] then [] else last ps)"

fun path_parent :: "pypath \<Rightarrow> pypath" where
  "path_parent (Path r ps) = Path r (butlast ps)"

text \<open>
  \<open>suffix\<close>, \<open>stem\<close> and \<open>with_suffix\<close> as \<open>pathlib\<close> computes them: the suffix of a name
  starts at its last dot, unless that dot is the first or the last character of the name.
  \<open>rfind_dot\<close> is \<open>name.rfind('.')\<close>, with \<open>None\<close> for Python's -1.
\<close>

definition rfind_dot :: "string \<Rightarrow> nat option" where
  "rfind_dot name =
     (case filter (\<lambda>i. name ! i = CHR ''.'') (rev [0..<length name]) of
        [] \<Rightarrow> None | i # _ \<Rightarrow> Some i)"

definition name_suffix :: "string \<Rightarrow> string" where
  "name_suffix name =
     (case rfind_dot name of
        None \<Rightarrow> []
      | Some i \<Rightarrow> (if 0 < i \<and> i < length name - 1 then drop i name else []))"

definition name_stem :: "string \<Rightarrow> string" where
  "name_stem name =
     (case rfind_dot name of
        None \<Rightarrow> name
      | Some i \<Rightarrow> (if 0 < i \<and> i < length name - 1 then take i name else name))"

fun with_suffix :: "pypath \<Rightarrow> string \<Rightarrow> error + pypath" where
  "with_suffix (Path r ps) suffix =
     (if CHR ''/'' \<in> set suffix \<or> (suffix \<noteq> [] \<and> hd suffix \<noteq> CHR ''.'') \<or> suffix = ''.''
      then Inl (ValueError (''Invalid suffix '' @ suffix))
      else let name = path_name (Path r ps)
           in if name = [] then Inl (ValueError (str_of_path (Path r ps) @ '' has an empty name''))
              else let old_suffix = name_suffix name;
                       name' = (if old_suffix = [] then name @ suffix
                                else take (length name - length old_suffix) name @ suffix)
                   in Inr (Path r (butlast ps @ [name'])))"

text \<open>
  The world the functions act on: the file system, a partial map from the parts of an
  absolute path to a file with its content or a directory (the root, \<open>[]\<close>, is a directory;
  there are no symbolic links, and \<open>..\<close> is a name like any other), the working directory
  that relative paths start from, and the commands of the child processes spawned so far.
\<close>

datatype node = File string | Dir

record world =
  files :: "string list \<rightharpoonup> node"
  cwd :: "string list"
  spawned :: "string list list"

fun resolve :: "world \<Rightarrow> pypath \<Rightarrow> string list" where
  "resolve w (Path rooted ps) = (if rooted then ps else cwd w @ ps)"

definition key_exists :: "world \<Rightarrow> string list \<Rightarrow> bool" where
  "key_exists w k = (k = [] \<or> files w k \<noteq> None)"

definition key_is_dir :: "world \<Rightarrow> string list \<Rightarrow> bool" where
  "key_is_dir w k = (k = [] \<or> files w k = Some Dir)"

definition path_exists :: "world \<Rightarrow> pypath \<Rightarrow> bool" where
  "path_exists w p = key_exists w (resolve w p)"

definition path_is_dir :: "world \<Rightarrow> pypath \<Rightarrow> bool" where
  "path_is_dir w p = key_is_dir w (resolve w p)"

text \<open>\<open>os.mkdir\<close>: the path must not exist, and its parent must be a directory.\<close>

definition os_mkdir :: "world \<Rightarrow> pypath \<Rightarrow> error + world" where
  "os_mkdir w p =
     (let k = resolve w p
      in if key_exists w k then Inl (FileExistsError (str_of_path p))
         else if \<not> key_exists w (butlast k) then Inl (FileNotFoundError (str_of_path p))
         else if \<not> key_is_dir w (butlast k) then Inl (NotADirectoryError (str_of_path p))
         else Inr (w\<lparr>files := (files w)(k \<mapsto> Dir)\<rparr>))"

text \<open>
  \<open>Path.mkdir(parents=True, exist_ok=True)\<close>: try \<open>os.mkdir\<close>; when the parent is missing,
  make the parent in the same way and try again (without \<open>parents\<close>); any other error of the
  operating system is passed over when the path is a directory. A failed call leaves the
  file system as it was.
\<close>

definition mkdir_exist_ok :: "world \<Rightarrow> pypath \<Rightarrow> error + world" where
  "mkdir_exist_ok w p =
     (case os_mkdir w p of
        Inr w' \<Rightarrow> Inr w'
      | Inl e \<Rightarrow> (if path_is_dir w p then Inr w else Inl e))"

function mkdir_parents :: "world \<Rightarrow> bool \<Rightarrow> string list \<Rightarrow> error + world" where
  "mkdir_parents w rooted ps =
     (case os_mkdir w (Path rooted ps) of
        Inr w' \<Rightarrow> Inr w'
      | Inl (FileNotFoundError m) \<Rightarrow>
          (if ps = [] then Inl (FileNotFoundError m)
           else (case mkdir_parents w rooted (butlast ps) of
                   Inl e \<Rightarrow> Inl e
                 | Inr w' \<Rightarrow> mkdir_exist_ok w' (Path rooted ps)))
      | Inl e \<Rightarrow> (if path_is_dir w (Path rooted ps) then Inr w else Inl e))"
  by pat_completeness auto
termination
  by (relation "measure (\<lambda>(w, rooted, ps). length ps)") auto

declare mkdir_parents.simps [simp del]

fun path_mkdir_parents_exist_ok :: "world \<Rightarrow> pypath \<Rightarrow> error + world" where
  "path_mkdir_parents_exist_ok w (Path rooted ps) = mkdir_parents w rooted ps"

text \<open>
  Opening a file: for reading, the path must be a file; for writing (mode \<open>w\<close> or \<open>wb\<close>), the
  parent must be a directory and the path must not be one, and the file is created or
  emptied. \<open>fwrite\<close> appends to the file that was opened.
\<close>

definition read_file :: "world \<Rightarrow> pypath \<Rightarrow> error + string" where
  "read_file w p =
     (let k = resolve w p
      in if k = [] then Inl (IsADirectoryError (str_of_path p))
         else (case files w k of
                 None \<Rightarrow> Inl (FileNotFoundError (str_of_path p))
               | Some Dir \<Rightarrow> Inl (IsADirectoryError (str_of_path p))
               | Some (File content) \<Rightarrow> Inr content))"

definition open_w :: "world \<Rightarrow> pypath \<Rightarrow> error + world" where
  "open_w w p =
     (let k = resolve w p
      in if key_is_dir w k then Inl (IsADirectoryError (str_of_path p))
         else if \<not> key_exists w (butlast k) then Inl (FileNotFoundError (str_of_path p))
         else if \<not> key_is_dir w (butlast k) then Inl (NotADirectoryError (str_of_path p))
         else Inr (w\<lparr>files := (files w)(k \<mapsto> File [])\<rparr>))"

definition fwrite :: "world \<Rightarrow> pypath \<Rightarrow> string \<Rightarrow> world" where
  "fwrite w p data =
     (let k = resolve w p
      in case files w k of
           Some (File content) \<Rightarrow> w\<lparr>files := (files w)(k \<mapsto> File (content @ data))\<rparr>
         | _ \<Rightarrow> w)"

section \<open>Process runner and audio normalizer\<close>

text \<open>
  \<open>bytes_repr\<close> is the text that an f-string puts for a \<open>bytes\<close> value: its \<open>repr\<close>.
\<close>

definition hex_digit :: "nat \<Rightarrow> char" where
  "hex_digit d = (if d < 10 then char_of (48 + d) else char_of (87 + d))"

definition bytes_repr_char :: "char \<Rightarrow> char \<Rightarrow> string" where
  "bytes_repr_char quote c =
     (let n = (of_char c :: nat)
      in if c = quote \<or> c = CHR 0x5C then [CHR 0x5C, c]
         else if n = 9 then [CHR 0x5C, CHR ''t'']
         else if n = 10 then [CHR 0x5C, CHR ''n'']
         else if n = 13 then [CHR 0x5C, CHR ''r'']
         else if n < 32 \<or> 127 \<le> n then [CHR 0x5C, CHR ''x'', hex_digit (n div 16), hex_digit (n mod 16)]
         else [c])"

definition bytes_repr :: "string \<Rightarrow> string" where
  "bytes_repr b =
     (let quote = (if CHR 0x27 \<in> set b \<and> CHR 0x22 \<notin> set b then CHR 0x22 else CHR 0x27)
      in ''b'' @ [quote] @ concat (map (bytes_repr_char quote) b) @ [quote])"

text \<open>
  The operating system's part of \<open>asyncio.create_subprocess_exec\<close> and \<open>communicate\<close> is
  the parameter \<open>exec\<close>: given the command and the file system, it fails to start the
  program, or runs it to its end and gives the exit code, the two captured outputs and the
  file system the program left. \<open>run_subprocess\<close> records every program that was started.
\<close>

type_synonym exec = "string list \<Rightarrow> (string list \<rightharpoonup> node)
                       \<Rightarrow> error + ((int \<times> string \<times> string) \<times> (string list \<rightharpoonup> node))"

definition run_subprocess :: "exec \<Rightarrow> string list \<Rightarrow> world \<Rightarrow> (error + (int \<times> string \<times> string)) \<times> world" where
  "run_subprocess exec command w =
     (case exec command (files w) of
        Inl e \<Rightarrow> (Inl e, w)
      | Inr (result, fs') \<Rightarrow> (Inr result, w\<lparr>files := fs', spawned := spawned w @ [command]\<rparr>))"

definition ffmpeg_cmd :: "pypath \<Rightarrow> pypath \<Rightarrow> string list" where
  "ffmpeg_cmd filepath new_filepath =
     [''ffmpeg'', ''-i'', str_of_path filepath, ''-vn'', ''-acodec'', ''pcm_s16le'',
      ''-ar'', ''16000'', ''-ac'', ''1'', ''-y'', str_of_path new_filepath]"

definition convert_file_to_wav :: "exec \<Rightarrow> string \<Rightarrow> world \<Rightarrow> (error + string) \<times> world" where
  "convert_file_to_wav exec filepath_str w =
     (let filepath = path_of_str filepath_str
      in if \<not> path_exists w filepath
         then (Inl (FileNotFoundError (''File '' @ str_of_path filepath @ '' does not exist.'')), w)
         else (case with_suffix filepath ''.wav'' of
                 Inl e \<Rightarrow> (Inl e, w)
               | Inr new_filepath \<Rightarrow>
                   (case run_subprocess exec (ffmpeg_cmd filepath new_filepath) w of
                      (Inl e, w') \<Rightarrow> (Inl e, w')
                    | (Inr (returncode, out, err), w') \<Rightarrow>
                        if returncode \<noteq> 0
                        then (Inl (Exception (''Error converting file '' @ str_of_path filepath
                                     @ '' to wav format: '' @ bytes_repr err)), w')
                        else (Inr (str_of_path new_filepath), w'))))"

section \<open>Audio acquirer\<close>

text \<open>
  The answer of the server to the GET request: the status, the value of the header
  \<open>Content-Type\<close> if there is one, and the chunks that the successive
  \<open>response.content.read(1024)\<close> return; an empty chunk, or the end of the list, is the end
  of the body. The network (\<open>http_get\<close>) and the table of \<open>mimetypes.guess_extension\<close> are
  parameters.
\<close>

record response =
  status :: int
  content_type :: "string option"
  chunks :: "string list"

fun write_chunks :: "world \<Rightarrow> pypath \<Rightarrow> string list \<Rightarrow> world" where
  "write_chunks w p [] = w"
| "write_chunks w p (chunk # rest) =
     (if chunk = [] then w else write_chunks (fwrite w p chunk) p rest)"

definition download_audio_file ::
  "(string \<Rightarrow> (string \<times> string) list \<Rightarrow> error + response)
     \<Rightarrow> (string option \<Rightarrow> error + string option)
     \<Rightarrow> string \<Rightarrow> string \<Rightarrow> (string \<times> string) list option \<Rightarrow> world
     \<Rightarrow> (error + string) \<times> world" where
  "download_audio_file http_get guess_extension url' filename url_headers w =
     (let url_headers' = (case url_headers of None \<Rightarrow> [] | Some h \<Rightarrow> h)
      in case http_get url' url_headers' of
           Inl e \<Rightarrow> (Inl e, w)
         | Inr response \<Rightarrow>
             if status response = 200
             then (case guess_extension (content_type response) of
                     Inl e \<Rightarrow> (Inl e, w)
                   | Inr extension \<Rightarrow>
                       let filename' = filename @ (case extension of None \<Rightarrow> ''None'' | Some x \<Rightarrow> x)
                       in (case open_w w (path_of_str filename') of
                             Inl e \<Rightarrow> (Inl e, w)
                           | Inr w' \<Rightarrow>
                               (Inr filename',
                                write_chunks w' (path_of_str filename') (chunks response))))
             else (Inl (Exception (''Failed to download file. Status: ''
                          @ str_int (status response))), w))"

section \<open>Diarization config builder\<close>

text \<open>
  \<open>json.dump\<close> of a dictionary of scalars, with the default separators and
  \<open>ensure_ascii\<close>: a quote and a backslash are escaped, and so is every character outside
  the printable ASCII range.
\<close>

datatype scalar = JNone | JInt int | JStr string

definition hex4 :: "nat \<Rightarrow> string" where
  "hex4 n = [hex_digit (n div 4096 mod 16), hex_digit (n div 256 mod 16),
             hex_digit (n div 16 mod 16), hex_digit (n mod 16)]"

definition json_escape_char :: "char \<Rightarrow> string" where
  "json_escape_char c =
     (let n = (of_char c :: nat)
      in if c = CHR 0x22 then [CHR 0x5C, CHR 0x22]
         else if c = CHR 0x5C then [CHR 0x5C, CHR 0x5C]
         else if n = 10 then [CHR 0x5C, CHR ''n'']
         else if n = 13 then [CHR 0x5C, CHR ''r'']
         else if n = 9 then [CHR 0x5C, CHR ''t'']
         else if n = 8 then [CHR 0x5C, CHR ''b'']
         else if n = 12 then [CHR 0x5C, CHR ''f'']
         else if n < 32 \<or> 126 < n then [CHR 0x5C, CHR ''u''] @ hex4 n
         else [c])"

definition json_str :: "string \<Rightarrow> string" where
  "json_str s = [CHR 0x22] @ concat (map json_escape_char s) @ [CHR 0x22]"

fun json_scalar :: "scalar \<Rightarrow> string" where
  "json_scalar JNone = ''null''"
| "json_scalar (JInt i) = str_int i"
| "json_scalar (JStr s) = json_str s"

fun join_comma :: "string list \<Rightarrow> string" where
  "join_comma [] = []"
| "join_comma [x] = x"
| "join_comma (x # y # xs) = x @ '', '' @ join_comma (y # xs)"

definition json_dumps :: "(string \<times> scalar) list \<Rightarrow> string" where
  "json_dumps d = ''{'' @ join_comma (map (\<lambda>(k, v). json_str k @ '': '' @ json_scalar v) d) @ ''}''"

text \<open>
  The configuration that \<open>OmegaConf.load\<close> returns is a tree; \<open>yaml_load\<close>, the parser, is a
  parameter. Setting an attribute is possible on a dictionary node only.
\<close>

datatype conf = CNone | CInt int | CStr string | CDict "(string \<times> conf) list"

fun conf_set :: "string \<Rightarrow> conf \<Rightarrow> conf \<Rightarrow> error + conf" where
  "conf_set key v (CDict kvs) = Inr (CDict (AList.update key v kvs))"
| "conf_set key v _ = Inl (AttributeError key)"

fun conf_get :: "string \<Rightarrow> conf \<Rightarrow> error + conf" where
  "conf_get key (CDict kvs) =
     (case map_of kvs key of None \<Rightarrow> Inl (AttributeError key) | Some c \<Rightarrow> Inr c)"
| "conf_get key _ = Inl (AttributeError key)"

definition conf_set_in :: "string \<Rightarrow> string \<Rightarrow> conf \<Rightarrow> conf \<Rightarrow> error + conf" where
  \<comment> \<open>\<open>cfg.outer.inner = v\<close>\<close>
  "conf_set_in outer inner v cfg =
     (case conf_get outer cfg of
        Inl e \<Rightarrow> Inl e
      | Inr sub \<Rightarrow> (case conf_set inner v sub of
                     Inl e \<Rightarrow> Inl e
                   | Inr sub' \<Rightarrow> conf_set outer sub' cfg))"

definition meta :: "(string \<times> scalar) list" where
  "meta = [(''audio_filepath'', JStr ''/app/temp_outputs/mono_file.wav''),
           (''offset'', JInt 0),
           (''duration'', JNone),
           (''label'', JStr ''infer''),
           (''text'', JStr ''-''),
           (''rttm_filepath'', JNone),
           (''uem_filepath'', JNone)]"

definition ensure_dir :: "world \<Rightarrow> pypath \<Rightarrow> error + world" where
  \<comment> \<open>\<open>if not p.exists(): p.mkdir(parents=True, exist_ok=True)\<close>\<close>
  "ensure_dir w p = (if \<not> path_exists w p then path_mkdir_parents_exist_ok w p else Inr w)"

definition cfg_path_of :: "pypath \<Rightarrow> string \<Rightarrow> pypath" where
  "cfg_path_of base domain_type =
     path_div (path_div (path_div base ''config'') ''nemo'')
       (''diar_infer_'' @ domain_type @ ''.yaml'')"

definition manifest_path_of :: "pypath \<Rightarrow> string \<Rightarrow> pypath" where
  "manifest_path_of base storage_path = path_div (path_div base storage_path) ''infer_manifest.json''"

text \<open>
  \<open>base\<close> is \<open>Path(__file__).parent.parent\<close>, the directory above the package. The result
  keeps the world also when the function raises, since what was written stays written.
\<close>

definition load_nemo_config ::
  "(string \<Rightarrow> error + conf) \<Rightarrow> pypath \<Rightarrow> string \<Rightarrow> string \<Rightarrow> string \<Rightarrow> world
     \<Rightarrow> (error + conf) \<times> world" where
  "load_nemo_config yaml_load base domain_type storage_path output_path w =
     (case read_file w (cfg_path_of base domain_type) of
        Inl e \<Rightarrow> (Inl e, w)
      | Inr content \<Rightarrow>
     (case yaml_load content of
        Inl e \<Rightarrow> (Inl e, w)
      | Inr cfg \<Rightarrow>
     (case ensure_dir w (path_div base storage_path) of
        Inl e \<Rightarrow> (Inl e, w)
      | Inr w1 \<Rightarrow>
     (let manifest_path = manifest_path_of base storage_path
      in case open_w w1 manifest_path of
        Inl e \<Rightarrow> (Inl e, w1)
      | Inr w2 \<Rightarrow>
     (let w3 = fwrite (fwrite w2 manifest_path (json_dumps meta)) manifest_path ''\<newline>'';
          output = path_div base output_path
      in case ensure_dir w3 output of
        Inl e \<Rightarrow> (Inl e, w3)
      | Inr w4 \<Rightarrow>
     (case conf_set ''num_workers'' (CInt 0) cfg of
        Inl e \<Rightarrow> (Inl e, w4)
      | Inr cfg1 \<Rightarrow>
     (case conf_set_in ''diarizer'' ''manifest_filepath'' (CStr (str_of_path manifest_path)) cfg1 of
        Inl e \<Rightarrow> (Inl e, w4)
      | Inr cfg2 \<Rightarrow>
     (case conf_set_in ''diarizer'' ''out_dir'' (CStr (str_of_path output)) cfg2 of
        Inl e \<Rightarrow> (Inl e, w4)
      | Inr cfg3 \<Rightarrow> (Inr cfg3, w4)))))))))"

text \<open>
  The manifest record as the specification words it: the fixed scalar fields, and the
  canonical audio path of the request.
\<close>

definition spec_manifest_record :: "string \<Rightarrow> string" where
  "spec_manifest_record audio_path =
     json_dumps [(''audio_filepath'', JStr audio_path),
                 (''offset'', JInt 0),
                 (''duration'', JNone),
                 (''label'', JStr ''infer''),
                 (''text'', JStr ''-''),
                 (''rttm_filepath'', JNone),
                 (''uem_filepath'', JNone)] @ ''\<newline>''"

text \<open>
  \<open>grows w w'\<close>: the world \<open>w'\<close> is \<open>w\<close> with some directories more, and nothing else.
\<close>

definition grows :: "world \<Rightarrow> world \<Rightarrow> bool" where
  "grows w w' = (cwd w' = cwd w \<and> spawned w' = spawned w
     \<and> (\<forall>k. files w' k = files w k \<or> (files w k = None \<and> files w' k = Some Dir)))"

text \<open>
  A small world and a parser for the examples: the package directory \<open>/app\<close> with the
  profile of the domain \<open>general\<close>, and a parser that returns a configuration with the keys
  that \<open>load_nemo_config\<close> sets.
\<close>

definition example_world :: world where
  "example_world =
     \<lparr>files = [[''app''] \<mapsto> Dir, [''app'', ''config''] \<mapsto> Dir,
               [''app'', ''config'', ''nemo''] \<mapsto> Dir,
               [''app'', ''config'', ''nemo'', ''diar_infer_general.yaml'']
                  \<mapsto> File ''num_workers: 4''],
      cwd = [''app''], spawned = []\<rparr>"

definition example_yaml_load :: "string \<Rightarrow> error + conf" where
  "example_yaml_load content =
     Inr (CDict [(''num_workers'', CInt 4), (''diarizer'', CDict [(''out_dir'', CNone)])])"

definition example_cfg :: conf where
  "example_cfg =
     CDict [(''num_workers'', CInt 0),
            (''diarizer'', CDict [(''out_dir'', CStr ''/app/out''),
               (''manifest_filepath'', CStr ''/app/store/r1/infer_manifest.json'')])]"

section \<open>Properties of the text formatter\<close>

lemma replace_from_single: "replace_from [d] [] s = filter (\<lambda>c. c \<noteq> d) s"
  by (induction s) auto

lemma filter_dropWhile_neg: "filter (\<lambda>c. \<not> P c) (dropWhile P s) = filter (\<lambda>c. \<not> P c) s"
  by (induction s) auto

lemma re_sub_lit_plus_delete: "re_sub_lit_plus [] P [] s = filter (\<lambda>c. \<not> P c) s"
proof (induction "length s" arbitrary: s rule: less_induct)
  case less
  show ?case
  proof (cases s)
    case Nil
    then show ?thesis by simp
  next
    case (Cons c cs)
    show ?thesis
    proof (cases "P c")
      case True
      have "length (dropWhile P cs) < length s"
        using Cons by (simp add: length_dropWhile_le le_imp_less_Suc)
      then have "re_sub_lit_plus [] P [] (dropWhile P cs) = filter (\<lambda>c. \<not> P c) (dropWhile P cs)"
        by (rule less)
      with True Cons show ?thesis
        by (simp add: filter_dropWhile_neg)
    next
      case False
      have "re_sub_lit_plus [] P [] cs = filter (\<lambda>c. \<not> P c) cs"
        using Cons by (intro less) simp
      with False Cons show ?thesis by simp
    qed
  qed
qed

lemma py_strip_Nil_iff: "(py_strip s = []) = (\<forall>c \<in> set s. isspace c)"
proof
  assume "py_strip s = []"
  then have a: "\<forall>c \<in> set (dropWhile isspace s). isspace c"
    by (simp add: py_strip_def dropWhile_eq_Nil_conv)
  have "dropWhile isspace s = []"
  proof (rule ccontr)
    assume n: "dropWhile isspace s \<noteq> []"
    then have "\<not> isspace (hd (dropWhile isspace s))" by (rule hd_dropWhile)
    moreover have "hd (dropWhile isspace s) \<in> set (dropWhile isspace s)" using n by simp
    ultimately show False using a by blast
  qed
  then show "\<forall>c \<in> set s. isspace c" by (simp add: dropWhile_eq_Nil_conv)
next
  assume "\<forall>c \<in> set s. isspace c"
  then show "py_strip s = []" by (auto simp: py_strip_def dest: set_dropWhileD)
qed

text \<open>
  C1. On the input \<open>Hello ... world !\<close>, \<open>format_punct\<close> removes the ellipsis and closes the
  space before the exclamation mark, and leaves the two spaces that surrounded the ellipsis:
  its pattern \<open>/s+\<close> matches a slash followed by letters s, not a run of whitespace. The
  result is \<open>Hello  world!\<close> with two spaces, not the \<open>Hello world!\<close> of the claim.
\<close>

theorem format_punct_keeps_double_space:
  "format_punct ''Hello ... world !'' = ''Hello  world!''
   \<and> format_punct ''Hello ... world !'' \<noteq> ''Hello world!''"
  by (simp add: format_punct_def py_replace_def re_sub_slash_s_def py_strip_def isspace_def)

text \<open>
  C7. \<open>is_empty_string\<close> is true exactly when nothing is left of the text once every period
  and every whitespace character is taken out; it is true for three periods followed by
  three spaces, and false for \<open>Hi.\<close>.
\<close>

theorem is_empty_string_iff:
  "is_empty_string s = (filter (\<lambda>c. c \<noteq> CHR ''.'' \<and> \<not> isspace c) s = [])
   \<and> is_empty_string ''...   '' = True \<and> is_empty_string ''Hi.'' = False"
proof -
  have g: "is_empty_string s = (filter (\<lambda>c. c \<noteq> CHR ''.'' \<and> \<not> isspace c) s = [])" for s
    by (auto simp: is_empty_string_def py_replace_def re_sub_whitespace_def replace_from_single
        re_sub_lit_plus_delete py_strip_Nil_iff filter_empty_conv)
  show ?thesis
    by (simp add: g isspace_def)
qed

section \<open>Properties of the timestamp converter\<close>



text \<open>
  C10. \<open>get_segment_timestamp_anchor\<close> returns the end for the option \<open>end\<close>, the float
  result of \<open>(start + end) / 2\<close> for \<open>mid\<close>, and the start for every other option, known or
  not; it has no error result.
\<close>

theorem get_segment_timestamp_anchor_cases:
  "get_segment_timestamp_anchor rnd start end' ''end'' = end'
   \<and> get_segment_timestamp_anchor rnd start end' ''mid'' = rnd (rnd (start + end') / 2)
   \<and> (option \<noteq> ''end'' \<and> option \<noteq> ''mid'' \<longrightarrow>
        get_segment_timestamp_anchor rnd start end' option = start)"
  by (simp add: get_segment_timestamp_anchor_def)

theorem get_segment_timestamp_anchor_cases_witness:
  "get_segment_timestamp_anchor id 1000 2000 ''end'' = 2000
   \<and> get_segment_timestamp_anchor id 1000 2000 ''mid'' = 1500
   \<and> ''nonsense'' \<noteq> ''end'' \<and> ''nonsense'' \<noteq> ''mid''
   \<and> get_segment_timestamp_anchor id 1000 2000 ''nonsense'' = 1000"
  using get_segment_timestamp_anchor_cases [of id 1000 2000 "''nonsense''"]
  by simp

section \<open>Properties of the request models\<close>

text \<open>
  C9. Constructing a \<open>DataRequest\<close> with a supplied \<open>timestamps\<close> value fails exactly when the
  value is none of \<open>s\<close>, \<open>ms\<close>, \<open>hms\<close>, and otherwise keeps the value unchanged; constructing
  a \<open>CortexPayload\<close> fails exactly when its supplied \<open>timestamps\<close> value is outside that set
  or its supplied \<open>url_type\<close> is outside \<open>audio_url\<close>, \<open>youtube\<close>. Whatever request was
  constructed, \<open>convert_timestamp\<close> does not fail on its \<open>timestamps\<close> field.
\<close>

theorem request_options_validated_at_construction:
  "((\<exists>es. new_DataRequest a l (Some v) = Inl es) = (v \<notin> {''s'', ''ms'', ''hms''}))
   \<and> (v \<in> {''s'', ''ms'', ''hms''} \<longrightarrow>
        (\<exists>r. new_DataRequest a l (Some v) = Inr r \<and> timestamps r = v))
   \<and> (new_DataRequest a l ts = Inr r \<longrightarrow>
        timestamps r \<in> {''s'', ''ms'', ''hms''}
        \<and> (\<forall>rnd t. \<exists>c. convert_timestamp rnd t (timestamps r) = Inr c))
   \<and> ((\<exists>es. new_CortexPayload (Some u) url' key a l (Some v) job p = Inl es)
        = (u \<notin> {''audio_url'', ''youtube''} \<or> v \<notin> {''s'', ''ms'', ''hms''}))
   \<and> (new_CortexPayload ut url' key a l ts job p = Inr q \<longrightarrow>
        cp_timestamps q \<in> {''s'', ''ms'', ''hms''} \<and> url_type q \<in> {''audio_url'', ''youtube''}
        \<and> (\<forall>rnd t. \<exists>c. convert_timestamp rnd t (cp_timestamps q) = Inr c))"
proof -
  have c: "x \<in> {''s'', ''ms'', ''hms''} \<Longrightarrow> \<exists>c. convert_timestamp rnd t x = Inr c" for x rnd t
    by (auto simp: convert_timestamp_def)
  have d1: "(\<exists>es. new_DataRequest a l (Some v) = Inl es) = (v \<notin> {''s'', ''ms'', ''hms''})"
    by (auto simp: new_DataRequest_def validated_def validate_timestamps_values_def)
  have d2: "v \<in> {''s'', ''ms'', ''hms''} \<longrightarrow>
        (\<exists>r. new_DataRequest a l (Some v) = Inr r \<and> timestamps r = v)"
    by (auto simp: new_DataRequest_def validated_def validate_timestamps_values_def)
  have d3: "timestamps r \<in> {''s'', ''ms'', ''hms''}" if "new_DataRequest a l ts = Inr r"
    using that
    by (auto simp: new_DataRequest_def validated_def validate_timestamps_values_def
        split: option.splits if_splits)
  have p1: "(\<exists>es. new_CortexPayload (Some u) url' key a l (Some v) job p = Inl es)
        = (u \<notin> {''audio_url'', ''youtube''} \<or> v \<notin> {''s'', ''ms'', ''hms''})"
    by (auto simp: new_CortexPayload_def validated_def validate_timestamps_values_def
        validate_url_type_def)
  have p2: "cp_timestamps q \<in> {''s'', ''ms'', ''hms''} \<and> url_type q \<in> {''audio_url'', ''youtube''}"
    if "new_CortexPayload ut url' key a l ts job p = Inr q"
    using that
    by (auto simp: new_CortexPayload_def validated_def validate_timestamps_values_def
        validate_url_type_def Let_def split: option.splits if_splits sum.splits)
  show ?thesis
    using d1 d2 d3 p1 p2 c by blast
qed

theorem request_options_validated_at_construction_witness:
  "(\<exists>es. new_DataRequest None None (Some ''minutes'') = Inl es)
   \<and> ''hms'' \<in> {''s'', ''ms'', ''hms''}
   \<and> new_DataRequest None None (Some ''hms'')
       = Inr \<lparr>alignment = False, source_lang = ''en'', timestamps = ''hms''\<rparr>
   \<and> (\<exists>c. convert_timestamp id 0 ''hms'' = Inr c)
   \<and> (\<exists>es. new_CortexPayload (Some ''file'') None None None None (Some ''hms'') None None = Inl es)
   \<and> (\<exists>q. new_CortexPayload (Some ''youtube'') None None None None (Some ''hms'') None None = Inr q
        \<and> (\<exists>c. convert_timestamp id 0 (cp_timestamps q) = Inr c))"
proof -
  let ?r = "\<lparr>alignment = False, source_lang = ''en'', timestamps = ''hms''\<rparr>"
  let ?q = "\<lparr>url_type = ''youtube'', url = None, api_key = None, cp_alignment = False,
             cp_source_lang = ''en'', cp_timestamps = ''hms'', job_name = None, ping = False\<rparr>"
  have r: "new_DataRequest None None (Some ''hms'') = Inr ?r"
    by (simp add: new_DataRequest_def validated_def validate_timestamps_values_def default_to_def)
  have q: "new_CortexPayload (Some ''youtube'') None None None None (Some ''hms'') None None = Inr ?q"
    by (simp add: new_CortexPayload_def validated_def validate_timestamps_values_def
        validate_url_type_def default_to_def)
  show ?thesis
    using request_options_validated_at_construction
      [where a = None and l = None and v = "''minutes''" and ts = "Some ''hms''" and r = ?r
         and u = "''file''" and url' = None and key = None and job = None and p = None
         and ut = "Some ''youtube''" and q = ?q]
      request_options_validated_at_construction
      [where a = None and l = None and v = "''hms''" and ts = "Some ''hms''" and r = ?r
         and u = "''file''" and url' = None and key = None and job = None and p = None
         and ut = "Some ''youtube''" and q = ?q]
      r q
    by simp
qed

section \<open>Properties of the file system\<close>

lemma grows_refl: "grows w w"
  by (simp add: grows_def)

lemma grows_trans: "grows w w1 \<Longrightarrow> grows w1 w2 \<Longrightarrow> grows w w2"
  unfolding grows_def by (metis option.distinct(1))

lemma resolve_cwd: "cwd w' = cwd w \<Longrightarrow> resolve w' p = resolve w p"
  by (cases p) simp

lemma os_mkdir_grows:
  "os_mkdir w p = Inr w' \<Longrightarrow> grows w w' \<and> key_is_dir w' (resolve w p)"
  by (auto simp: os_mkdir_def Let_def grows_def key_exists_def key_is_dir_def split: if_splits)

lemma mkdir_exist_ok_grows:
  assumes "mkdir_exist_ok w p = Inr w'"
  shows "grows w w' \<and> key_is_dir w' (resolve w p)"
proof (cases "os_mkdir w p")
  case (Inr w1)
  with assms have "w' = w1" by (simp add: mkdir_exist_ok_def)
  with os_mkdir_grows [OF Inr] show ?thesis by simp
next
  case (Inl e)
  with assms have "w' = w \<and> path_is_dir w p"
    by (simp add: mkdir_exist_ok_def split: if_splits)
  then show ?thesis by (simp add: grows_refl path_is_dir_def)
qed

lemma mkdir_parents_Inr:
  "os_mkdir w (Path r ps) = Inr w1 \<Longrightarrow> mkdir_parents w r ps = Inr w1"
  by (simp add: mkdir_parents.simps [of w r ps])

lemma mkdir_parents_not_found:
  "os_mkdir w (Path r ps) = Inl (FileNotFoundError m) \<Longrightarrow>
   mkdir_parents w r ps =
     (if ps = [] then Inl (FileNotFoundError m)
      else (case mkdir_parents w r (butlast ps) of
              Inl e \<Rightarrow> Inl e
            | Inr w' \<Rightarrow> mkdir_exist_ok w' (Path r ps)))"
  by (simp add: mkdir_parents.simps [of w r ps])

lemma mkdir_parents_other:
  "os_mkdir w (Path r ps) = Inl e \<Longrightarrow> \<forall>m. e \<noteq> FileNotFoundError m \<Longrightarrow>
   mkdir_parents w r ps = (if path_is_dir w (Path r ps) then Inr w else Inl e)"
  by (cases e) (simp_all add: mkdir_parents.simps [of w r ps])

lemma mkdir_parents_grows:
  "mkdir_parents w r ps = Inr w' \<Longrightarrow> grows w w' \<and> key_is_dir w' (resolve w (Path r ps))"
proof (induction w r ps arbitrary: w' rule: mkdir_parents.induct)
  case (1 w r ps)
  show ?case
  proof (cases "os_mkdir w (Path r ps)")
    case (Inr w1)
    with "1.prems" have "w' = w1" by (simp add: mkdir_parents_Inr)
    with os_mkdir_grows [OF Inr] show ?thesis by simp
  next
    case (Inl e)
    show ?thesis
    proof (cases "\<exists>m. e = FileNotFoundError m")
      case True
      then obtain m where e: "e = FileNotFoundError m" by blast
      note eq = mkdir_parents_not_found [OF Inl [unfolded e]]
      from "1.prems" have ne: "ps \<noteq> []"
        unfolding eq by (simp split: if_splits)
      from "1.prems" ne obtain w1 where
        p: "mkdir_parents w r (butlast ps) = Inr w1" and f: "mkdir_exist_ok w1 (Path r ps) = Inr w'"
        unfolding eq by (cases "mkdir_parents w r (butlast ps)") simp_all
      from "1.IH" [OF Inl e ne p] have g1: "grows w w1" by simp
      from mkdir_exist_ok_grows [OF f] have g2: "grows w1 w'" and d: "key_is_dir w' (resolve w1 (Path r ps))"
        by simp_all
      have "cwd w1 = cwd w" using g1 by (simp add: grows_def)
      then have "resolve w1 (Path r ps) = resolve w (Path r ps)" by (rule resolve_cwd)
      with g1 g2 d show ?thesis using grows_trans by metis
    next
      case False
      then have "\<forall>m. e \<noteq> FileNotFoundError m" by blast
      note eq = mkdir_parents_other [OF Inl this]
      from "1.prems" have "w' = w \<and> path_is_dir w (Path r ps)"
        unfolding eq by (simp split: if_splits)
      then show ?thesis by (simp add: grows_refl path_is_dir_def)
    qed
  qed
qed

lemma ensure_dir_grows:
  "ensure_dir w p = Inr w' \<Longrightarrow> grows w w' \<and> path_exists w' p"
proof (cases p)
  case (Path r ps)
  assume a: "ensure_dir w p = Inr w'"
  show ?thesis
  proof (cases "path_exists w p")
    case True
    with a show ?thesis by (simp add: ensure_dir_def grows_refl)
  next
    case False
    with a Path have "mkdir_parents w r ps = Inr w'" by (simp add: ensure_dir_def)
    from mkdir_parents_grows [OF this] have g: "grows w w'" and d: "key_is_dir w' (resolve w p)"
      using Path by simp_all
    have "cwd w' = cwd w" using g by (simp add: grows_def)
    then have "resolve w' p = resolve w p" by (rule resolve_cwd)
    with g d show ?thesis by (auto simp: path_exists_def key_exists_def key_is_dir_def)
  qed
qed


section \<open>Properties of the audio acquirer\<close>

lemma str_int_404: "str_int 404 = ''404''"
  by code_simp

text \<open>
  C5. When the server answers the GET request with a status other than 200,
  \<open>download_audio_file\<close> raises the exception whose message ends with that status, and the
  world is the one before the call: no file was created or written.
\<close>

theorem download_audio_file_non_200:
  "http_get url' (case hdrs of None \<Rightarrow> [] | Some h \<Rightarrow> h) = Inr r \<Longrightarrow> status r \<noteq> 200 \<Longrightarrow>
   download_audio_file http_get guess url' filename hdrs w
     = (Inl (Exception (''Failed to download file. Status: '' @ str_int (status r))), w)"
  by (simp add: download_audio_file_def)

theorem download_audio_file_non_200_witness:
  "(\<lambda>u h. Inr \<lparr>status = 404, content_type = Some ''audio/mpeg'', chunks = [''abc'']\<rparr>)
       ''http://x/a.mp3'' (case None of None \<Rightarrow> [] | Some h \<Rightarrow> h)
     = (Inr \<lparr>status = 404, content_type = Some ''audio/mpeg'', chunks = [''abc'']\<rparr>
          :: error + response)
   \<and> status \<lparr>status = 404, content_type = Some ''audio/mpeg'', chunks = [''abc'']\<rparr> \<noteq> 200
   \<and> download_audio_file
        (\<lambda>u h. Inr \<lparr>status = 404, content_type = Some ''audio/mpeg'', chunks = [''abc'']\<rparr>)
        (\<lambda>c. Inr (Some ''.mp3'')) ''http://x/a.mp3'' ''/tmp/a'' None
        \<lparr>files = Map.empty, cwd = [], spawned = []\<rparr>
     = (Inl (Exception ''Failed to download file. Status: 404''),
        \<lparr>files = Map.empty, cwd = [], spawned = []\<rparr>)"
  using download_audio_file_non_200
    [of "\<lambda>u h. Inr \<lparr>status = 404, content_type = Some ''audio/mpeg'', chunks = [''abc'']\<rparr>"
      "''http://x/a.mp3''" None
      "\<lparr>status = 404, content_type = Some ''audio/mpeg'', chunks = [''abc'']\<rparr>"
      "\<lambda>c. Inr (Some ''.mp3'')" "''/tmp/a''" "\<lparr>files = Map.empty, cwd = [], spawned = []\<rparr>"]
  by (simp add: str_int_404)

section \<open>Properties of the audio normalizer\<close>

lemma take_minus_suffix:
  "(if name_suffix name = [] then name @ sfx
    else take (length name - length (name_suffix name)) name @ sfx) = name_stem name @ sfx"
  by (auto simp: name_suffix_def name_stem_def split: option.splits)

lemma with_suffix_wav:
  "ps \<noteq> [] \<Longrightarrow> last ps \<noteq> [] \<Longrightarrow>
   with_suffix (Path r ps) ''.wav'' = Inr (Path r (butlast ps @ [name_stem (last ps) @ ''.wav'']))"
  using take_minus_suffix [of "last ps" "''.wav''"] by (simp add: Let_def)

lemma with_suffix_wav_Inr:
  "with_suffix (Path r ps) ''.wav'' = Inr q \<Longrightarrow>
   ps \<noteq> [] \<and> q = Path r (butlast ps @ [name_stem (last ps) @ ''.wav''])"
  using take_minus_suffix [of "last ps" "''.wav''"] by (auto simp: Let_def split: if_splits)

lemma join_slash_snoc: "\<exists>pre. join_slash (ps @ [x @ sfx]) = pre @ sfx"
proof (induction ps rule: join_slash.induct)
  case 1 show ?case by simp
next
  case (2 p) show ?case by simp
next
  case (3 p q ps)
  then obtain pre where "join_slash ((q # ps) @ [x @ sfx]) = pre @ sfx" by blast
  then have "join_slash ((p # q # ps) @ [x @ sfx]) = (p @ ''/'' @ pre) @ sfx" by simp
  then show ?case by blast
qed

lemma str_of_path_snoc: "\<exists>pre. str_of_path (Path r (ps @ [x @ sfx])) = pre @ sfx"
proof -
  obtain pre where p: "join_slash (ps @ [x @ sfx]) = pre @ sfx"
    using join_slash_snoc by blast
  show ?thesis
  proof (cases r)
    case True
    then have "str_of_path (Path r (ps @ [x @ sfx])) = (''/'' @ pre) @ sfx" using p by simp
    then show ?thesis by blast
  next
    case False
    then have "str_of_path (Path r (ps @ [x @ sfx])) = pre @ sfx" using p by simp
    then show ?thesis by blast
  qed
qed

text \<open>
  C6. \<open>convert_file_to_wav\<close>: when the input path does not exist, the result is the
  \<open>FileNotFoundError\<close> and the world is the one before the call, so no process was started;
  a path that is returned is the input path, its last name cut at the suffix and ended with
  \<open>.wav\<close>; and when the transcoder ends with an exit code other than zero, the result is
  the exception whose message ends with the captured standard error.
\<close>

theorem convert_file_to_wav_contract:
  "(\<not> path_exists w (path_of_str fp) \<longrightarrow>
      convert_file_to_wav exec fp w
        = (Inl (FileNotFoundError (''File '' @ str_of_path (path_of_str fp) @ '' does not exist.'')), w))
   \<and> (convert_file_to_wav exec fp w = (Inr out, w') \<longrightarrow>
        (\<exists>r ps. path_of_str fp = Path r ps \<and> ps \<noteq> []
           \<and> out = str_of_path (Path r (butlast ps @ [name_stem (last ps) @ ''.wav'']))
           \<and> (\<exists>pre. out = pre @ ''.wav'')))
   \<and> (path_exists w (path_of_str fp) \<and> with_suffix (path_of_str fp) ''.wav'' = Inr q
        \<and> exec (ffmpeg_cmd (path_of_str fp) q) (files w) = Inr ((rc, sout, serr), fs')
        \<and> rc \<noteq> 0 \<longrightarrow>
        fst (convert_file_to_wav exec fp w)
          = Inl (Exception (''Error converting file '' @ str_of_path (path_of_str fp)
                   @ '' to wav format: '' @ bytes_repr serr)))"
proof (intro conjI impI)
  assume "\<not> path_exists w (path_of_str fp)"
  then show "convert_file_to_wav exec fp w
        = (Inl (FileNotFoundError (''File '' @ str_of_path (path_of_str fp) @ '' does not exist.'')), w)"
    by (simp add: convert_file_to_wav_def)
next
  assume a: "convert_file_to_wav exec fp w = (Inr out, w')"
  obtain r ps where p: "path_of_str fp = Path r ps" by (cases "path_of_str fp")
  from a p obtain q where q: "with_suffix (Path r ps) ''.wav'' = Inr q" and o: "out = str_of_path q"
    by (auto simp: convert_file_to_wav_def Let_def split: if_splits sum.splits prod.splits)
  from with_suffix_wav_Inr [OF q]
  have ne: "ps \<noteq> []" and qq: "q = Path r (butlast ps @ [name_stem (last ps) @ ''.wav''])"
    by simp_all
  from str_of_path_snoc [of r "butlast ps" "name_stem (last ps)" "''.wav''"] o qq
  have "\<exists>pre. out = pre @ ''.wav''" by simp
  with p ne o qq
  show "\<exists>r ps. path_of_str fp = Path r ps \<and> ps \<noteq> []
          \<and> out = str_of_path (Path r (butlast ps @ [name_stem (last ps) @ ''.wav'']))
          \<and> (\<exists>pre. out = pre @ ''.wav'')"
    by blast
next
  assume "path_exists w (path_of_str fp) \<and> with_suffix (path_of_str fp) ''.wav'' = Inr q
        \<and> exec (ffmpeg_cmd (path_of_str fp) q) (files w) = Inr ((rc, sout, serr), fs')
        \<and> rc \<noteq> 0"
  then show "fst (convert_file_to_wav exec fp w)
          = Inl (Exception (''Error converting file '' @ str_of_path (path_of_str fp)
                   @ '' to wav format: '' @ bytes_repr serr))"
    by (simp add: convert_file_to_wav_def run_subprocess_def Let_def)
qed

lemma ex_path_missing: "path_of_str ''/tmp/missing.mp3'' = Path True [''tmp'', ''missing.mp3'']"
  by code_simp

lemma ex_path_a: "path_of_str ''/tmp/a.mp3'' = Path True [''tmp'', ''a.mp3'']"
  by code_simp

lemma ex_with_suffix_a:
  "with_suffix (Path True [''tmp'', ''a.mp3'']) ''.wav'' = Inr (Path True [''tmp'', ''a.wav''])"
  by code_simp

lemma ex_bytes_repr: "bytes_repr ''boom'' = ''b'boom'' @ [CHR 0x27]"
  by code_simp

theorem convert_file_to_wav_contract_witness:
  "\<not> path_exists \<lparr>files = [[''tmp''] \<mapsto> Dir, [''tmp'', ''a.mp3''] \<mapsto> File ''x''], cwd = [''tmp''],
                    spawned = []\<rparr> (path_of_str ''/tmp/missing.mp3'')
   \<and> convert_file_to_wav (\<lambda>c fs. Inr ((0, [], []), fs)) ''/tmp/missing.mp3''
        \<lparr>files = [[''tmp''] \<mapsto> Dir, [''tmp'', ''a.mp3''] \<mapsto> File ''x''], cwd = [''tmp''], spawned = []\<rparr>
      = (Inl (FileNotFoundError ''File /tmp/missing.mp3 does not exist.''),
         \<lparr>files = [[''tmp''] \<mapsto> Dir, [''tmp'', ''a.mp3''] \<mapsto> File ''x''], cwd = [''tmp''], spawned = []\<rparr>)
   \<and> fst (convert_file_to_wav (\<lambda>c fs. Inr ((0, [], []), fs)) ''/tmp/a.mp3''
        \<lparr>files = [[''tmp''] \<mapsto> Dir, [''tmp'', ''a.mp3''] \<mapsto> File ''x''], cwd = [''tmp''], spawned = []\<rparr>)
      = Inr ''/tmp/a.wav''
   \<and> path_exists \<lparr>files = [[''tmp''] \<mapsto> Dir, [''tmp'', ''a.mp3''] \<mapsto> File ''x''], cwd = [''tmp''],
                    spawned = []\<rparr> (path_of_str ''/tmp/a.mp3'')
   \<and> fst (convert_file_to_wav (\<lambda>c fs. Inr ((1, [], ''boom''), fs)) ''/tmp/a.mp3''
        \<lparr>files = [[''tmp''] \<mapsto> Dir, [''tmp'', ''a.mp3''] \<mapsto> File ''x''], cwd = [''tmp''], spawned = []\<rparr>)
      = Inl (Exception (''Error converting file /tmp/a.mp3 to wav format: b'boom'' @ [CHR 0x27]))"
proof -
  let ?w = "\<lparr>files = [[''tmp''] \<mapsto> Dir, [''tmp'', ''a.mp3''] \<mapsto> File ''x''], cwd = [''tmp''],
              spawned = []\<rparr>"
  let ?ok = "\<lambda>(c :: string list) (fs :: string list \<rightharpoonup> node).
               (Inr ((0 :: int, [] :: string, [] :: string), fs) :: error + _)"
  let ?bad = "\<lambda>(c :: string list) (fs :: string list \<rightharpoonup> node).
               (Inr ((1 :: int, [] :: string, ''boom''), fs) :: error + _)"
  let ?w' = "?w\<lparr>files := files ?w,
         spawned := spawned ?w @ [ffmpeg_cmd (Path True [''tmp'', ''a.mp3'']) (Path True [''tmp'', ''a.wav''])]\<rparr>"
  have m: "\<not> path_exists ?w (path_of_str ''/tmp/missing.mp3'')"
    by (simp add: ex_path_missing path_exists_def key_exists_def)
  have e: "path_exists ?w (path_of_str ''/tmp/a.mp3'')"
    by (simp add: ex_path_a path_exists_def key_exists_def)
  have s: "with_suffix (path_of_str ''/tmp/a.mp3'') ''.wav'' = Inr (Path True [''tmp'', ''a.wav''])"
    by (simp only: ex_path_a ex_with_suffix_a)
  have ok: "convert_file_to_wav ?ok ''/tmp/a.mp3'' ?w = (Inr ''/tmp/a.wav'', ?w')"
    using e s by (simp add: convert_file_to_wav_def run_subprocess_def ex_path_a)
  have b: "?bad (ffmpeg_cmd (path_of_str ''/tmp/a.mp3'') (Path True [''tmp'', ''a.wav''])) (files ?w)
     = Inr ((1, [], ''boom''), files ?w)"
    by simp
  from convert_file_to_wav_contract [where w = ?w and fp = "''/tmp/missing.mp3''" and exec = ?ok] m
  have 1: "convert_file_to_wav ?ok ''/tmp/missing.mp3'' ?w
      = (Inl (FileNotFoundError ''File /tmp/missing.mp3 does not exist.''), ?w)"
    by (simp add: ex_path_missing)
  from convert_file_to_wav_contract [where w = ?w and fp = "''/tmp/a.mp3''" and exec = ?ok
      and out = "''/tmp/a.wav''" and w' = ?w'] ok
  have 2: "fst (convert_file_to_wav ?ok ''/tmp/a.mp3'' ?w) = Inr ''/tmp/a.wav''"
    by simp
  from convert_file_to_wav_contract [where w = ?w and fp = "''/tmp/a.mp3''" and exec = ?bad
      and q = "Path True [''tmp'', ''a.wav'']" and rc = 1 and sout = "[]" and serr = "''boom''"
      and fs' = "files ?w"] e s b
  have 3: "fst (convert_file_to_wav ?bad ''/tmp/a.mp3'' ?w)
      = Inl (Exception (''Error converting file /tmp/a.mp3 to wav format: b'boom'' @ [CHR 0x27]))"
    by (simp add: ex_path_a ex_bytes_repr)
  from m 1 2 e 3 show ?thesis by blast
qed

section \<open>Properties of the diarization config builder\<close>

lemma path_of_str_manifest: "path_of_str ''infer_manifest.json'' = Path False [''infer_manifest.json'']"
  by code_simp

lemma resolve_manifest:
  "resolve w (manifest_path_of base sp) = resolve w (path_div base sp) @ [''infer_manifest.json'']"
proof (cases "path_div base sp")
  case (Path r ps)
  then show ?thesis
    by (simp add: manifest_path_of_def path_div_def [of "Path r ps"] path_of_str_manifest)
qed

lemma open_w_Inr:
  assumes "open_w w p = Inr w'"
  shows "w' = w\<lparr>files := (files w)(resolve w p \<mapsto> File [])\<rparr>"
    and "\<not> key_is_dir w (resolve w p)"
    and "key_is_dir w (butlast (resolve w p))"
  using assms by (auto simp: open_w_def Let_def split: if_splits)

lemma fwrite_File:
  "files w (resolve w p) = Some (File c) \<Longrightarrow>
   fwrite w p d = w\<lparr>files := (files w)(resolve w p \<mapsto> File (c @ d))\<rparr>"
  by (simp add: fwrite_def)

lemma resolve_files_upd [simp]: "resolve (w\<lparr>files := f\<rparr>) p = resolve w p"
  by (cases p) simp

lemma written:
  assumes "open_w w1 p = Inr w2"
  shows "fwrite (fwrite w2 p a) p b = w1\<lparr>files := (files w1)(resolve w1 p \<mapsto> File (a @ b))\<rparr>"
proof -
  let ?k = "resolve w1 p"
  have w2: "w2 = w1\<lparr>files := (files w1)(?k \<mapsto> File [])\<rparr>" using open_w_Inr(1) [OF assms] .
  have 1: "fwrite w2 p a = w1\<lparr>files := (files w1)(?k \<mapsto> File a)\<rparr>"
    unfolding w2 by (simp add: fwrite_def)
  show ?thesis unfolding 1 by (simp add: fwrite_def)
qed

lemma load_nemo_config_Inr:
  assumes "load_nemo_config yaml_load base d sp op w = (Inr cfg, w')"
  obtains content cfg0 w1 w2 cfg1 cfg2 where
    "read_file w (cfg_path_of base d) = Inr content"
    "yaml_load content = Inr cfg0"
    "ensure_dir w (path_div base sp) = Inr w1"
    "open_w w1 (manifest_path_of base sp) = Inr w2"
    "ensure_dir (fwrite (fwrite w2 (manifest_path_of base sp) (json_dumps meta))
        (manifest_path_of base sp) ''\<newline>'') (path_div base op) = Inr w'"
    "conf_set ''num_workers'' (CInt 0) cfg0 = Inr cfg1"
    "conf_set_in ''diarizer'' ''manifest_filepath'' (CStr (str_of_path (manifest_path_of base sp))) cfg1 = Inr cfg2"
    "conf_set_in ''diarizer'' ''out_dir'' (CStr (str_of_path (path_div base op))) cfg2 = Inr cfg"
  using assms unfolding load_nemo_config_def Let_def
  by (simp split: sum.splits)


lemma grows_files_Some: "grows w w' \<Longrightarrow> files w k = Some v \<Longrightarrow> files w' k = Some v"
  unfolding grows_def by (metis option.distinct(1))

lemma grows_files:
  "grows w w' \<Longrightarrow> files w' k = files w k \<or> (files w k = None \<and> files w' k = Some Dir)"
  by (simp add: grows_def)

lemma grows_key_is_dir: "grows w w' \<Longrightarrow> key_is_dir w k \<Longrightarrow> key_is_dir w' k"
  unfolding key_is_dir_def using grows_files_Some by blast

lemma grows_cwd: "grows w w' \<Longrightarrow> cwd w' = cwd w"
  by (simp add: grows_def)

lemma grows_resolve: "grows w w' \<Longrightarrow> resolve w' p = resolve w p"
  using grows_cwd resolve_cwd by blast

lemma load_nemo_config_effect:
  assumes run: "load_nemo_config yaml_load base d sp op w = (Inr cfg, w')"
  defines "kM \<equiv> resolve w (manifest_path_of base sp)"
  shows "files w' kM = Some (File (json_dumps meta @ ''\<newline>''))"
    and "cwd w' = cwd w" and "spawned w' = spawned w"
    and "\<forall>k. k \<noteq> kM \<longrightarrow> files w' k = files w k \<or> (files w k = None \<and> files w' k = Some Dir)"
    and "key_is_dir w' (resolve w (path_div base sp))"
    and "path_exists w' (path_div base sp)"
    and "path_exists w' (path_div base op)"
    and "\<forall>k. k \<noteq> kM \<longrightarrow> files w k \<noteq> None \<longrightarrow> files w' k = files w k"
proof -
  let ?M = "manifest_path_of base sp"
  from run obtain content cfg0 w1 w2 where
    e1: "ensure_dir w (path_div base sp) = Inr w1" and
    o: "open_w w1 ?M = Inr w2" and
    e2: "ensure_dir (fwrite (fwrite w2 ?M (json_dumps meta)) ?M ''\<newline>'') (path_div base op) = Inr w'"
    by (rule load_nemo_config_Inr)
  from ensure_dir_grows [OF e1] have g1: "grows w w1" and x1: "path_exists w1 (path_div base sp)"
    by simp_all
  have r1: "resolve w1 p = resolve w p" for p using g1 by (rule grows_resolve)
  let ?w3 = "w1\<lparr>files := (files w1)(kM \<mapsto> File (json_dumps meta @ ''\<newline>''))\<rparr>"
  have w3: "fwrite (fwrite w2 ?M (json_dumps meta)) ?M ''\<newline>'' = ?w3"
    using written [OF o] by (simp add: r1 kM_def)
  from ensure_dir_grows [OF e2 [unfolded w3]]
  have g2: "grows ?w3 w'" and x2: "path_exists w' (path_div base op)"
    by simp_all
  have r2: "resolve w' p = resolve w p" for p
    using grows_resolve [OF g2] by (simp add: r1)
  show "files w' kM = Some (File (json_dumps meta @ ''\<newline>''))"
    using grows_files_Some [OF g2, of kM] by simp
  show "cwd w' = cwd w" using grows_cwd [OF g2] grows_cwd [OF g1] by simp
  show "spawned w' = spawned w" using g1 g2 by (simp add: grows_def)
  show "\<forall>k. k \<noteq> kM \<longrightarrow> files w' k = files w k \<or> (files w k = None \<and> files w' k = Some Dir)"
  proof (intro allI impI)
    fix k assume k: "k \<noteq> kM"
    from g1 have a: "files w1 k = files w k \<or> (files w k = None \<and> files w1 k = Some Dir)"
      by (simp add: grows_def)
    from grows_files [OF g2, of k] k have b: "files w' k = files w1 k \<or> (files w1 k = None \<and> files w' k = Some Dir)"
      by simp
    from a b show "files w' k = files w k \<or> (files w k = None \<and> files w' k = Some Dir)"
      by auto
  qed
  then show "\<forall>k. k \<noteq> kM \<longrightarrow> files w k \<noteq> None \<longrightarrow> files w' k = files w k"
    by auto
  have "key_is_dir w1 (butlast (resolve w1 ?M))" using open_w_Inr(3) [OF o] .
  then have d1: "key_is_dir w1 (resolve w (path_div base sp))"
    by (simp add: r1 resolve_manifest)
  have "kM \<noteq> resolve w (path_div base sp)" by (simp add: kM_def resolve_manifest)
  with d1 have "key_is_dir ?w3 (resolve w (path_div base sp))"
    by (simp add: key_is_dir_def)
  then show d4: "key_is_dir w' (resolve w (path_div base sp))"
    by (rule grows_key_is_dir [OF g2])
  then show "path_exists w' (path_div base sp)"
    by (auto simp: path_exists_def key_exists_def key_is_dir_def r2)
  show "path_exists w' (path_div base op)" by (rule x2)
qed

lemma split_slash_not_Nil [simp]: "split_slash s \<noteq> []"
  by (induction s) (auto split: list.splits)

lemma split_slash_no_slash: "CHR ''/'' \<notin> set t \<Longrightarrow> split_slash t = [t]"
  by (induction t) auto

lemma split_slash_append:
  "CHR ''/'' \<notin> set t \<Longrightarrow>
   split_slash (s @ t) = butlast (split_slash s) @ [last (split_slash s) @ t]"
proof (induction s)
  case Nil
  then show ?case by (simp add: split_slash_no_slash)
next
  case (Cons c s)
  obtain p ps where sp: "split_slash s = p # ps"
    by (cases "split_slash s") simp_all
  show ?case
  proof (cases "c = CHR ''/''")
    case True
    with Cons show ?thesis by simp
  next
    case False
    show ?thesis
    proof (cases ps)
      case Nil
      with False Cons sp show ?thesis by simp
    next
      case (Cons q qs)
      with False Cons.IH [OF Cons.prems] sp show ?thesis by simp
    qed
  qed
qed

lemma last_filter_keep:
  assumes "xs \<noteq> []" and "P (last xs)"
  shows "last (filter P xs) = last xs"
proof -
  have "filter P (butlast xs @ [last xs]) = filter P (butlast xs) @ [last xs]"
    using assms(2) by simp
  then show ?thesis using assms(1) by simp
qed

lemma path_of_str_append:
  assumes s: "s \<noteq> []" "hd s \<noteq> CHR ''/''"
    and t: "CHR ''/'' \<notin> set t" "2 \<le> length t"
  shows "\<exists>ps x. path_of_str (s @ t) = Path False ps \<and> ps \<noteq> [] \<and> last ps = x @ t"
proof -
  define xs where "xs = split_slash (s @ t)"
  define P where "P = (\<lambda>p :: string. p \<noteq> [] \<and> p \<noteq> ''.'')"
  have "xs = butlast (split_slash s) @ [last (split_slash s) @ t]"
    unfolding xs_def using t(1) by (rule split_slash_append)
  then have l: "last xs = last (split_slash s) @ t" and ne: "xs \<noteq> []"
    by simp_all
  have "length (last xs) \<noteq> length ''.''" and "last xs \<noteq> []"
    using t(2) unfolding l by auto
  then have Pl: "P (last xs)" unfolding P_def by auto
  have "last xs \<in> set xs" using ne by simp
  with Pl have fne: "filter P xs \<noteq> []"
    unfolding filter_empty_conv by blast
  have lf: "last (filter P xs) = last xs"
    using ne Pl by (rule last_filter_keep)
  have "path_of_str (s @ t) = Path False (filter P xs)"
    using s by (simp add: path_of_str_def xs_def P_def)
  moreover have "last (filter P xs) = last (split_slash s) @ t"
    using lf l by simp
  ultimately show ?thesis using fne by (intro exI conjI)
qed

lemma last_parts_yaml:
  "\<exists>ps x. path_of_str (''diar_infer_'' @ d @ ''.yaml'') = Path False ps \<and> ps \<noteq> []
     \<and> last ps = x @ ''.yaml''"
proof -
  have "\<exists>ps x. path_of_str ((''diar_infer_'' @ d) @ ''.yaml'') = Path False ps \<and> ps \<noteq> []
     \<and> last ps = x @ ''.yaml''"
    by (rule path_of_str_append) simp_all
  then show ?thesis by simp
qed

lemma cfg_key_not_manifest_key:
  "resolve w (cfg_path_of base d) \<noteq> resolve w (manifest_path_of base sp)"
proof -
  define seg where "seg = ''diar_infer_'' @ d @ ''.yaml''"
  obtain ps x where p: "path_of_str seg = Path False ps"
    and ne: "ps \<noteq> []" and l: "last ps = x @ ''.yaml''"
    unfolding seg_def using last_parts_yaml by blast
  obtain r qs where q: "path_div (path_div base ''config'') ''nemo'' = Path r qs"
    by (cases "path_div (path_div base ''config'') ''nemo''")
  have "cfg_path_of base d = path_div (Path r qs) seg"
    by (simp only: cfg_path_of_def q seg_def)
  also have "\<dots> = Path r (qs @ ps)"
    by (simp add: path_div_def p)
  finally have "resolve w (cfg_path_of base d) = resolve w (Path r qs) @ ps"
    by simp
  then have "last (resolve w (cfg_path_of base d)) = x @ ''.yaml''"
    using ne l by simp
  moreover have "last (resolve w (manifest_path_of base sp)) = ''infer_manifest.json''"
    by (simp add: resolve_manifest)
  moreover have "x @ ''.yaml'' \<noteq> ''infer_manifest.json''"
  proof
    assume "x @ ''.yaml'' = ''infer_manifest.json''"
    then have "last (x @ ''.yaml'') = last ''infer_manifest.json''" by simp
    then show False by simp
  qed
  ultimately have "last (resolve w (cfg_path_of base d)) \<noteq> last (resolve w (manifest_path_of base sp))"
    by simp
  then show ?thesis by auto
qed

lemma read_file_cong:
  "cwd w' = cwd w \<Longrightarrow> files w' (resolve w p) = files w (resolve w p) \<Longrightarrow>
   read_file w' p = read_file w p"
  using resolve_cwd [of w' w p] by (simp add: read_file_def Let_def)

lemma read_file_Inr_Some:
  "read_file w p = Inr c \<Longrightarrow> files w (resolve w p) \<noteq> None"
  by (auto simp: read_file_def Let_def split: if_splits option.splits node.splits)

lemma world_files_idem: "files w k = Some v \<Longrightarrow> w\<lparr>files := (files w)(k \<mapsto> v)\<rparr> = w"
  by (simp add: fun_upd_idem)

lemma load_nemo_config_again:
  assumes run: "load_nemo_config yaml_load base d sp op w = (Inr cfg, w')"
  shows "load_nemo_config yaml_load base d sp op w' = (Inr cfg, w')"
proof -
  let ?M = "manifest_path_of base sp"
  let ?C = "cfg_path_of base d"
  let ?line = "json_dumps meta @ ''\<newline>''"
  from run obtain content cfg0 cfg1 cfg2 and w1 w2 :: world where
    rd: "read_file w ?C = Inr content" and
    yl: "yaml_load content = Inr cfg0" and
    c1: "conf_set ''num_workers'' (CInt 0) cfg0 = Inr cfg1" and
    c2: "conf_set_in ''diarizer'' ''manifest_filepath'' (CStr (str_of_path ?M)) cfg1 = Inr cfg2" and
    c3: "conf_set_in ''diarizer'' ''out_dir'' (CStr (str_of_path (path_div base op))) cfg2 = Inr cfg"
    by (rule load_nemo_config_Inr)
  note eff = load_nemo_config_effect [OF run]
  have cw: "cwd w' = cwd w" by (rule eff(2))
  have r: "resolve w' p = resolve w p" for p using cw by (rule resolve_cwd)
  have "files w' (resolve w ?C) = files w (resolve w ?C)"
    using eff(8) cfg_key_not_manifest_key [of w base d sp] read_file_Inr_Some [OF rd] by blast
  with cw have rd': "read_file w' ?C = Inr content"
    using read_file_cong [of w' w ?C] rd by simp
  have e1: "ensure_dir w' (path_div base sp) = Inr w'"
    using eff(6) by (simp add: ensure_dir_def)
  have m: "files w' (resolve w' ?M) = Some (File ?line)"
    using eff(1) by (simp add: r)
  have "key_is_dir w' (butlast (resolve w' ?M))"
    using eff(5) by (simp add: r resolve_manifest)
  then have ow: "open_w w' ?M = Inr (w'\<lparr>files := (files w')(resolve w' ?M \<mapsto> File [])\<rparr>)"
    using m by (auto simp: open_w_def Let_def key_is_dir_def key_exists_def resolve_manifest)
  have "fwrite (fwrite (w'\<lparr>files := (files w')(resolve w' ?M \<mapsto> File [])\<rparr>) ?M (json_dumps meta))
          ?M ''\<newline>'' = w'\<lparr>files := (files w')(resolve w' ?M \<mapsto> File ?line)\<rparr>"
    using written [OF ow] by simp
  also have "\<dots> = w'" using m by (rule world_files_idem)
  finally have wr: "fwrite (fwrite (w'\<lparr>files := (files w')(resolve w' ?M \<mapsto> File [])\<rparr>) ?M
      (json_dumps meta)) ?M ''\<newline>'' = w'" .
  have e2: "ensure_dir w' (path_div base op) = Inr w'"
    using eff(7) by (simp add: ensure_dir_def)
  show ?thesis
    unfolding load_nemo_config_def Let_def
    by (simp only: rd' yl e1 ow wr e2 c1 c2 c3 sum.case)
qed

lemma manifest_line:
  \<open>json_dumps meta @ ''\<newline>''
     = ''{"audio_filepath": "/app/temp_outputs/mono_file.wav", "offset": 0, "duration": null, "label": "infer", "text": "-", "rttm_filepath": null, "uem_filepath": null}\<newline>''\<close>
  by code_simp

lemma example_run:
  "fst (load_nemo_config example_yaml_load (Path True [''app'']) ''general'' ''store/r1'' ''out''
          example_world) = Inr example_cfg"
  by code_simp

lemma example_manifest:
  "files (snd (load_nemo_config example_yaml_load (Path True [''app'']) ''general'' ''store/r1''
                 ''out'' example_world)) [''app'', ''store'', ''r1'', ''infer_manifest.json'']
     = Some (File (json_dumps meta @ ''\<newline>''))"
  by code_simp

lemma example_storage_key:
  "resolve example_world (path_div (Path True [''app'']) ''store/r1'') = [''app'', ''store'', ''r1'']"
  by code_simp

lemma example_not_spec_record:
  "json_dumps meta @ ''\<newline>'' \<noteq> spec_manifest_record ''/data/request_42.wav''"
  by code_simp

text \<open>
  C2, as it is stated, fails: \<open>load_nemo_config\<close> has no parameter for the audio file of the
  request, and the record it writes names the fixed path \<open>/app/temp_outputs/mono_file.wav\<close>.
  For a request whose canonical audio file is \<open>/data/request_42.wav\<close>, the manifest that a
  successful call leaves is not the record with that path.
\<close>

theorem manifest_ignores_request_audio_path:
  "fst (load_nemo_config example_yaml_load (Path True [''app'']) ''general'' ''store/r1'' ''out''
          example_world) = Inr example_cfg
   \<and> files (snd (load_nemo_config example_yaml_load (Path True [''app'']) ''general'' ''store/r1''
                 ''out'' example_world)) [''app'', ''store'', ''r1'', ''infer_manifest.json'']
       \<noteq> Some (File (spec_manifest_record ''/data/request_42.wav''))"
  using example_run example_manifest example_not_spec_record by simp

text \<open>
  C2, amended. A call of \<open>load_nemo_config\<close> that returns leaves, at
  \<open>infer_manifest.json\<close> in the storage directory (the storage path taken from the directory
  above the package), a file that holds exactly one line: the JSON object of the seven fixed
  fields, the audio path among them being the fixed \<open>/app/temp_outputs/mono_file.wav\<close>,
  ended by a newline. Whatever was at that path before is replaced. Nothing else is written:
  every other path is as before, or is a directory that did not exist.
\<close>

theorem load_nemo_config_writes_manifest:
  \<open>load_nemo_config yaml_load base d sp op w = (Inr cfg, w') \<Longrightarrow>
   files w' (resolve w (path_div base sp) @ [''infer_manifest.json''])
     = Some (File ''{"audio_filepath": "/app/temp_outputs/mono_file.wav", "offset": 0, "duration": null, "label": "infer", "text": "-", "rttm_filepath": null, "uem_filepath": null}\<newline>'')
   \<and> cwd w' = cwd w \<and> spawned w' = spawned w
   \<and> (\<forall>k. k \<noteq> resolve w (path_div base sp) @ [''infer_manifest.json''] \<longrightarrow>
          files w' k = files w k \<or> (files w k = None \<and> files w' k = Some Dir))\<close>
proof -
  assume run: "load_nemo_config yaml_load base d sp op w = (Inr cfg, w')"
  note eff = load_nemo_config_effect [OF run]
  show ?thesis
    using eff(1) eff(2) eff(3) eff(4)
    unfolding resolve_manifest manifest_line by blast
qed

theorem load_nemo_config_writes_manifest_witness:
  \<open>load_nemo_config example_yaml_load (Path True [''app'']) ''general'' ''store/r1'' ''out''
       example_world
     = (Inr example_cfg,
        snd (load_nemo_config example_yaml_load (Path True [''app'']) ''general'' ''store/r1''
               ''out'' example_world))
   \<and> files (snd (load_nemo_config example_yaml_load (Path True [''app'']) ''general'' ''store/r1''
                 ''out'' example_world)) [''app'', ''store'', ''r1'', ''infer_manifest.json'']
     = Some (File ''{"audio_filepath": "/app/temp_outputs/mono_file.wav", "offset": 0, "duration": null, "label": "infer", "text": "-", "rttm_filepath": null, "uem_filepath": null}\<newline>'')\<close>
proof -
  let ?run = "load_nemo_config example_yaml_load (Path True [''app'']) ''general'' ''store/r1''
                ''out'' example_world"
  have h: "?run = (Inr example_cfg, snd ?run)"
    using example_run by (metis prod.collapse)
  from load_nemo_config_writes_manifest [OF h] h show ?thesis
    by (simp add: example_storage_key)
qed

text \<open>
  C8. After a call of \<open>load_nemo_config\<close> that returned, a second call with the same
  arguments returns too, with the same configuration, and leaves the world exactly as the
  first call left it: the directories are found and not made again, and the one manifest
  file holds the record just written.
\<close>

theorem load_nemo_config_idempotent:
  "load_nemo_config yaml_load base d sp op w = (Inr cfg, w') \<Longrightarrow>
   load_nemo_config yaml_load base d sp op w' = (Inr cfg, w')
   \<and> files w' (resolve w (path_div base sp) @ [''infer_manifest.json''])
       = Some (File (json_dumps meta @ ''\<newline>''))
   \<and> path_exists w' (path_div base sp) \<and> path_exists w' (path_div base op)"
proof -
  assume run: "load_nemo_config yaml_load base d sp op w = (Inr cfg, w')"
  note eff = load_nemo_config_effect [OF run]
  show ?thesis
    using load_nemo_config_again [OF run] eff(1) eff(6) eff(7)
    unfolding resolve_manifest by blast
qed

theorem load_nemo_config_idempotent_witness:
  "load_nemo_config example_yaml_load (Path True [''app'']) ''general'' ''store/r1'' ''out''
       example_world
     = (Inr example_cfg,
        snd (load_nemo_config example_yaml_load (Path True [''app'']) ''general'' ''store/r1''
               ''out'' example_world))
   \<and> load_nemo_config example_yaml_load (Path True [''app'']) ''general'' ''store/r1'' ''out''
        (snd (load_nemo_config example_yaml_load (Path True [''app'']) ''general'' ''store/r1''
               ''out'' example_world))
     = (Inr example_cfg,
        snd (load_nemo_config example_yaml_load (Path True [''app'']) ''general'' ''store/r1''
               ''out'' example_world))"
proof -
  let ?run = "load_nemo_config example_yaml_load (Path True [''app'']) ''general'' ''store/r1''
                ''out'' example_world"
  have h: "?run = (Inr example_cfg, snd ?run)"
    using example_run by (metis prod.collapse)
  from load_nemo_config_idempotent [OF h] h show ?thesis
    by simp
qed

end
